theory Spec2Isabelle
  imports Main
begin

section \<open>Strings and the character database\<close>

text \<open>
  A Python \<^verbatim>\<open>str\<close> is a sequence of Unicode code points, so a character is its code
  point (a natural number) and the length of a string counts code points.
\<close>

type_synonym codepoint = nat
type_synonym pystr = "codepoint list"

definition ord_str :: "string \<Rightarrow> pystr" where
  "ord_str cs = map of_char cs"

definition SPACE :: codepoint where "SPACE = 32"
definition HYPHEN :: codepoint where "HYPHEN = 45"
definition PERIOD :: codepoint where "PERIOD = 46"
definition SLASH :: codepoint where "SLASH = 47"
definition UNDERSCORE :: codepoint where "UNDERSCORE = 95"
definition TILDE :: codepoint where "TILDE = 126"

text \<open>
  The character classes used by \<^verbatim>\<open>str.strip\<close> and by the pattern \<^verbatim>\<open>\w\<close> come from
  the interpreter's Unicode character database, which is not part of this repository and
  grows with every Unicode version. The ASCII block is fixed and is written out; the
  tables for the code points from 128 on are a parameter of the model.
\<close>

record unicode_db =
  db_alpha :: "codepoint \<Rightarrow> bool"
  db_decimal :: "codepoint \<Rightarrow> bool"
  db_digit :: "codepoint \<Rightarrow> bool"
  db_numeric :: "codepoint \<Rightarrow> bool"
  db_whitespace :: "codepoint \<Rightarrow> bool"

definition ascii_letter :: "codepoint \<Rightarrow> bool" where
  "ascii_letter ch = ((65 \<le> ch \<and> ch \<le> 90) \<or> (97 \<le> ch \<and> ch \<le> 122))"

definition ascii_number :: "codepoint \<Rightarrow> bool" where
  "ascii_number ch = (48 \<le> ch \<and> ch \<le> 57)"

definition ascii_whitespace :: "codepoint \<Rightarrow> bool" where
  "ascii_whitespace ch = ((9 \<le> ch \<and> ch \<le> 13) \<or> (28 \<le> ch \<and> ch \<le> 32))"

definition Py_UNICODE_ISALPHA :: "unicode_db \<Rightarrow> codepoint \<Rightarrow> bool" where
  "Py_UNICODE_ISALPHA db ch = (if ch < 128 then ascii_letter ch else db_alpha db ch)"

definition Py_UNICODE_ISDECIMAL :: "unicode_db \<Rightarrow> codepoint \<Rightarrow> bool" where
  "Py_UNICODE_ISDECIMAL db ch = (if ch < 128 then ascii_number ch else db_decimal db ch)"

definition Py_UNICODE_ISDIGIT :: "unicode_db \<Rightarrow> codepoint \<Rightarrow> bool" where
  "Py_UNICODE_ISDIGIT db ch = (if ch < 128 then ascii_number ch else db_digit db ch)"

definition Py_UNICODE_ISNUMERIC :: "unicode_db \<Rightarrow> codepoint \<Rightarrow> bool" where
  "Py_UNICODE_ISNUMERIC db ch = (if ch < 128 then ascii_number ch else db_numeric db ch)"

definition Py_UNICODE_ISALNUM :: "unicode_db \<Rightarrow> codepoint \<Rightarrow> bool" where
  "Py_UNICODE_ISALNUM db ch =
     (Py_UNICODE_ISALPHA db ch \<or> Py_UNICODE_ISDECIMAL db ch \<or>
      Py_UNICODE_ISDIGIT db ch \<or> Py_UNICODE_ISNUMERIC db ch)"

definition Py_UNICODE_ISSPACE :: "unicode_db \<Rightarrow> codepoint \<Rightarrow> bool" where
  "Py_UNICODE_ISSPACE db ch = (if ch < 128 then ascii_whitespace ch else db_whitespace db ch)"

text \<open>
  In every version of the Unicode database no whitespace character is alphabetic or
  numeric. The properties that need this fact take it as the hypothesis \<open>db_wf\<close>.
\<close>

definition db_wf :: "unicode_db \<Rightarrow> bool" where
  "db_wf db = (\<forall>ch. Py_UNICODE_ISSPACE db ch \<longrightarrow> \<not> Py_UNICODE_ISALNUM db ch)"

text \<open>Two sample databases: ASCII only, and ASCII with a part of Latin-1.\<close>

definition ascii_db :: unicode_db where
  "ascii_db = \<lparr>db_alpha = (\<lambda>ch. False), db_decimal = (\<lambda>ch. False), db_digit = (\<lambda>ch. False),
     db_numeric = (\<lambda>ch. False), db_whitespace = (\<lambda>ch. False)\<rparr>"

definition latin1_db :: unicode_db where
  "latin1_db = \<lparr>
     db_alpha = (\<lambda>ch. ch \<in> {170, 181, 186} \<or> (192 \<le> ch \<and> ch \<le> 255 \<and> ch \<noteq> 215 \<and> ch \<noteq> 247)),
     db_decimal = (\<lambda>ch. False),
     db_digit = (\<lambda>ch. ch \<in> {178, 179, 185}),
     db_numeric = (\<lambda>ch. ch \<in> {178, 179, 185, 188, 189, 190}),
     db_whitespace = (\<lambda>ch. ch \<in> {133, 160})\<rparr>"

subsection \<open>\<^verbatim>\<open>str.strip()\<close>\<close>

text \<open>
  Without an argument \<^verbatim>\<open>strip\<close> scans over the whitespace at the left end up to index
  \<open>i\<close>, then from the right end down to index \<open>j\<close> without passing \<open>i\<close>, and returns
  the slice \<^verbatim>\<open>s[i:j]\<close>.
\<close>

definition str_strip :: "unicode_db \<Rightarrow> pystr \<Rightarrow> pystr" where
  "str_strip db s =
     (let i = length (takeWhile (Py_UNICODE_ISSPACE db) s);
          j = length s - length (takeWhile (Py_UNICODE_ISSPACE db) (rev (drop i s)))
      in take (j - i) (drop i s))"

subsection \<open>\<^verbatim>\<open>str.replace(old, new)\<close>\<close>

text \<open>
  All occurrences of \<open>old\<close> are replaced from left to right, without overlap. An empty
  \<open>old\<close> matches before every character and at the end.
\<close>

fun replace_empty :: "pystr \<Rightarrow> pystr \<Rightarrow> pystr" where
  "replace_empty new [] = new"
| "replace_empty new (c # cs) = new @ c # replace_empty new cs"

function replace_nonempty :: "pystr \<Rightarrow> pystr \<Rightarrow> pystr \<Rightarrow> pystr" where
  "replace_nonempty old new [] = []"
| "replace_nonempty old new (c # cs) =
     (if old \<noteq> [] \<and> take (length old) (c # cs) = old
      then new @ replace_nonempty old new (drop (length old) (c # cs))
      else c # replace_nonempty old new cs)"
  by pat_completeness auto
termination
  by (relation "measure (\<lambda>(old, new, s). length s)") auto

definition str_replace :: "pystr \<Rightarrow> pystr \<Rightarrow> pystr \<Rightarrow> pystr" where
  "str_replace s old new = (if old = [] then replace_empty new s else replace_nonempty old new s)"

subsection \<open>\<^verbatim>\<open>re.sub(pattern, repl, string)\<close> for a character set\<close>

text \<open>
  The pattern \<^verbatim>\<open>(?u)[^-\w.]\<close> parses to one negated set with three items, under the
  flag \<^verbatim>\<open>re.UNICODE\<close>:
  \<^verbatim>\<open>IN [NEGATE, LITERAL 45, CATEGORY CATEGORY_WORD, LITERAL 46]\<close>.
  Under \<^verbatim>\<open>re.UNICODE\<close> the category of word characters is the alphanumeric characters of
  the character database and the underscore; under \<^verbatim>\<open>re.ASCII\<close> it is \<^verbatim>\<open>[a-zA-Z0-9_]\<close>.
\<close>

datatype re_flag = SRE_FLAG_ASCII | SRE_FLAG_UNICODE

datatype set_item = LITERAL codepoint | CATEGORY_WORD

record pattern =
  flag :: re_flag
  negate :: bool
  items :: "set_item list"

fun item_matches :: "unicode_db \<Rightarrow> re_flag \<Rightarrow> set_item \<Rightarrow> codepoint \<Rightarrow> bool" where
  "item_matches db fl (LITERAL l) ch = (ch = l)"
| "item_matches db SRE_FLAG_UNICODE CATEGORY_WORD ch = (Py_UNICODE_ISALNUM db ch \<or> ch = UNDERSCORE)"
| "item_matches db SRE_FLAG_ASCII CATEGORY_WORD ch =
     (ch < 128 \<and> (ascii_letter ch \<or> ascii_number ch \<or> ch = UNDERSCORE))"

definition set_matches :: "unicode_db \<Rightarrow> pattern \<Rightarrow> codepoint \<Rightarrow> bool" where
  "set_matches db pat ch =
     (let found = list_ex (\<lambda>it. item_matches db (flag pat) it ch) (items pat)
      in if negate pat then \<not> found else found)"

text \<open>
  A set matches exactly one character, so the matches found from left to right are the
  single characters of the set, each replaced by \<open>repl\<close> (a replacement without
  backslash escapes).
\<close>

fun re_sub :: "unicode_db \<Rightarrow> pattern \<Rightarrow> pystr \<Rightarrow> pystr \<Rightarrow> pystr" where
  "re_sub db pat repl [] = []"
| "re_sub db pat repl (ch # rest) =
     (if set_matches db pat ch then repl @ re_sub db pat repl rest
      else ch # re_sub db pat repl rest)"

section \<open>Paths\<close>

text \<open>
  A \<^verbatim>\<open>pathlib.Path\<close> on a POSIX system is a root (empty, one slash or two slashes) and the
  list of the components after it. Building a path from strings splits them at the
  slashes and drops the empty components and the components \<^verbatim>\<open>.\<close>; parsing goes
  through the arguments from the last to the first and stops at the first one with a root.
\<close>

record Path =
  root :: pystr
  tail :: "pystr list"

fun str_split :: "codepoint \<Rightarrow> pystr \<Rightarrow> pystr list" where
  "str_split sep [] = [[]]"
| "str_split sep (c # cs) =
     (if c = sep then [] # str_split sep cs
      else (case str_split sep cs of [] \<Rightarrow> [[c]] | w # ws \<Rightarrow> (c # w) # ws))"

definition splitroot :: "pystr \<Rightarrow> pystr \<times> pystr" where
  "splitroot part =
     (if part \<noteq> [] \<and> hd part = SLASH then
        (let stripped_part = dropWhile (\<lambda>c. c = SLASH) part
         in if length part - length stripped_part = 2 then ([SLASH, SLASH], stripped_part)
            else ([SLASH], stripped_part))
      else ([], part))"

fun parse_parts_rev :: "pystr list \<Rightarrow> pystr \<times> pystr list" where
  "parse_parts_rev [] = ([], [])"
| "parse_parts_rev (part # it) =
     (if part = [] then parse_parts_rev it
      else (let (rt, rel) = splitroot part;
                parsed = filter (\<lambda>x. x \<noteq> [] \<and> x \<noteq> [PERIOD]) (str_split SLASH rel)
            in if rt \<noteq> [] then (rt, parsed)
               else (let (rt', before) = parse_parts_rev it in (rt', before @ parsed))))"

definition from_parts :: "pystr list \<Rightarrow> Path" where
  "from_parts args = (let (rt, parsed) = parse_parts_rev (rev args) in \<lparr>root = rt, tail = parsed\<rparr>)"

definition Path_of :: "pystr \<Rightarrow> Path" where
  "Path_of s = from_parts [s]"

definition str_rstrip :: "codepoint \<Rightarrow> pystr \<Rightarrow> pystr" where
  "str_rstrip ch s = rev (dropWhile (\<lambda>c. c = ch) (rev s))"

fun str_join :: "pystr \<Rightarrow> pystr list \<Rightarrow> pystr" where
  "str_join sep [] = []"
| "str_join sep [x] = x"
| "str_join sep (x # y # ys) = x @ sep @ str_join sep (y # ys)"

text \<open>\<^verbatim>\<open>str(path)\<close>: the root, the components joined by slashes, and \<^verbatim>\<open>.\<close> for the empty path.\<close>

definition path_str :: "Path \<Rightarrow> pystr" where
  "path_str p = (let s = root p @ str_join [SLASH] (tail p) in if s = [] then [PERIOD] else s)"

section \<open>Exceptions\<close>

datatype FileType = FILE | DIR | FILE_OR_DIR

text \<open>
  Modelled from the spec: the exception class \<^verbatim>\<open>NoSuchFileOrDirectoryError\<close> of
  \<^verbatim>\<open>bubop.exceptions\<close>, a "no such file or directory" error carrying the path. The
  other classes are Python's own: \<open>FileNotFoundError\<close> and \<open>NotADirectoryError\<close> as the
  source raises them, with the path as argument; \<open>OSError\<close> as \<^verbatim>\<open>os.stat\<close> raises it,
  with its error number and the file name; \<open>RuntimeError\<close> of \<^verbatim>\<open>Path.expanduser\<close>;
  \<open>ValueError\<close> (with its subclass \<^verbatim>\<open>UnicodeEncodeError\<close>) of \<^verbatim>\<open>pwd.getpwnam\<close>;
  \<open>KeyError\<close> of a dictionary lookup. \<open>StrError\<close> stands for whatever the \<^verbatim>\<open>__str__\<close>
  method of an object raises.
\<close>

datatype exn =
    FileNotFoundError Path
  | NotADirectoryError Path
  | NoSuchFileOrDirectoryError Path
  | OSError nat pystr
  | RuntimeError pystr
  | ValueError
  | KeyError FileType
  | StrError pystr

section \<open>The operating system\<close>

subsection \<open>The home directories\<close>

text \<open>
  \<^verbatim>\<open>os.path.expanduser\<close> reads the environment variable \<^verbatim>\<open>HOME\<close> and the password
  database: the entry of the current user id and the entries by user name. A lookup by
  name finds an entry with its directory, raises \<^verbatim>\<open>KeyError\<close> for an unknown name, or
  raises \<^verbatim>\<open>ValueError\<close> for a name that cannot be passed to the system (a null
  character in it, or a character that cannot be encoded). \<^verbatim>\<open>os.path.expanduser\<close>
  catches the \<^verbatim>\<open>KeyError\<close> and returns the path unchanged; a \<^verbatim>\<open>ValueError\<close> passes
  through it.
\<close>

datatype pw_lookup = PwEntry pystr | PwKeyError | PwValueError

record os_env =
  environ_HOME :: "pystr option"
  getpwuid_dir :: "pystr option"
  getpwnam :: "pystr \<Rightarrow> pw_lookup"

definition posixpath_expanduser :: "os_env \<Rightarrow> pystr \<Rightarrow> exn + pystr" where
  "posixpath_expanduser env path =
     (if take 1 path \<noteq> [TILDE] then Inr path
      else
        (let i = (if SLASH \<in> set (drop 1 path)
                  then 1 + length (takeWhile (\<lambda>c. c \<noteq> SLASH) (drop 1 path))
                  else length path);
             userhome = (if i = 1
                         then (case environ_HOME env of
                                 None \<Rightarrow> (case getpwuid_dir env of
                                             None \<Rightarrow> PwKeyError
                                           | Some h \<Rightarrow> PwEntry h)
                               | Some h \<Rightarrow> PwEntry h)
                         else getpwnam env (take (i - 1) (drop 1 path)))
         in case userhome of
              PwKeyError \<Rightarrow> Inr path
            | PwValueError \<Rightarrow> Inl ValueError
            | PwEntry h \<Rightarrow>
                Inr (let r = str_rstrip SLASH h @ drop i path in if r = [] then [SLASH] else r)))"

definition expanduser :: "os_env \<Rightarrow> Path \<Rightarrow> exn + Path" where
  "expanduser env self =
     (if root self = [] \<and> tail self \<noteq> [] \<and> take 1 (hd (tail self)) = [TILDE] then
        (case posixpath_expanduser env (hd (tail self)) of
           Inl e \<Rightarrow> Inl e
         | Inr homedir \<Rightarrow>
             if take 1 homedir = [TILDE]
             then Inl (RuntimeError (ord_str ''Could not determine home directory.''))
             else Inr (from_parts (homedir # tl (tail self))))
      else Inr self)"

subsection \<open>The file system\<close>

text \<open>
  The file system gives the outcome of \<^verbatim>\<open>os.stat\<close> on a path, which follows symbolic
  links: the kind of the entity found, an \<^verbatim>\<open>OSError\<close> with its error number, or a
  \<^verbatim>\<open>ValueError\<close> for a path that cannot be passed to the system. The queries
  \<^verbatim>\<open>Path.exists\<close>, \<^verbatim>\<open>Path.is_file\<close> and \<^verbatim>\<open>Path.is_dir\<close> answer false on a
  \<^verbatim>\<open>ValueError\<close> and on the error numbers ENOENT, ENOTDIR, EBADF and ELOOP (an
  absent path, a broken link); they raise every other \<^verbatim>\<open>OSError\<close> again, such as
  EACCES (permission denied) and ENAMETOOLONG.
\<close>

datatype file_mode = S_IFREG | S_IFDIR | S_IFOTHER

datatype stat_result = StatMode file_mode | StatOSError nat | StatValueError

type_synonym filesystem = "Path \<Rightarrow> stat_result"

definition ENOENT :: nat where "ENOENT = 2"
definition EBADF :: nat where "EBADF = 9"
definition EACCES :: nat where "EACCES = 13"
definition ENOTDIR :: nat where "ENOTDIR = 20"
definition ENAMETOOLONG :: nat where "ENAMETOOLONG = 36"
definition ELOOP :: nat where "ELOOP = 40"

definition ignore_error :: "nat \<Rightarrow> bool" where
  "ignore_error errno = (errno = ENOENT \<or> errno = ENOTDIR \<or> errno = EBADF \<or> errno = ELOOP)"

definition path_exists :: "filesystem \<Rightarrow> Path \<Rightarrow> exn + bool" where
  "path_exists fs self =
     (case fs self of
        StatMode m \<Rightarrow> Inr True
      | StatOSError errno \<Rightarrow>
          if \<not> ignore_error errno then Inl (OSError errno (path_str self)) else Inr False
      | StatValueError \<Rightarrow> Inr False)"

definition is_dir :: "filesystem \<Rightarrow> Path \<Rightarrow> exn + bool" where
  "is_dir fs self =
     (case fs self of
        StatMode m \<Rightarrow> Inr (m = S_IFDIR)
      | StatOSError errno \<Rightarrow>
          if \<not> ignore_error errno then Inl (OSError errno (path_str self)) else Inr False
      | StatValueError \<Rightarrow> Inr False)"

definition is_file :: "filesystem \<Rightarrow> Path \<Rightarrow> exn + bool" where
  "is_file fs self =
     (case fs self of
        StatMode m \<Rightarrow> Inr (m = S_IFREG)
      | StatOSError errno \<Rightarrow>
          if \<not> ignore_error errno then Inl (OSError errno (path_str self)) else Inr False
      | StatValueError \<Rightarrow> Inr False)"

section \<open>The module \<^verbatim>\<open>bubop.fs\<close>\<close>

definition file_type_to_exists_fn :: "FileType \<rightharpoonup> (filesystem \<Rightarrow> Path \<Rightarrow> exn + bool)" where
  "file_type_to_exists_fn =
     [FILE \<mapsto> (\<lambda>fs p. is_file fs p),
      DIR \<mapsto> (\<lambda>fs p. is_dir fs p),
      FILE_OR_DIR \<mapsto> (\<lambda>fs p. path_exists fs p)]"

definition file_type_to_not_exists_exc :: "FileType \<rightharpoonup> (Path \<Rightarrow> exn)" where
  "file_type_to_not_exists_exc =
     [FILE \<mapsto> FileNotFoundError,
      DIR \<mapsto> NotADirectoryError,
      FILE_OR_DIR \<mapsto> NoSuchFileOrDirectoryError]"

definition FileType_exists :: "FileType \<Rightarrow> filesystem \<Rightarrow> Path \<Rightarrow> exn + bool" where
  "FileType_exists self fs path =
     (case file_type_to_exists_fn self of
        None \<Rightarrow> Inl (KeyError self)
      | Some f \<Rightarrow> f fs path)"

text \<open>The keyword argument \<open>filetype\<close> is \<open>None\<close> when the caller omits it.\<close>

definition valid_path :: "os_env \<Rightarrow> filesystem \<Rightarrow> pystr \<Rightarrow> FileType option \<Rightarrow> exn + Path" where
  "valid_path env fs s filetype_arg =
     (let filetype = (case filetype_arg of None \<Rightarrow> FILE_OR_DIR | Some ft \<Rightarrow> ft)
      in case expanduser env (Path_of s) of
           Inl e \<Rightarrow> Inl e
         | Inr path \<Rightarrow>
             (case FileType_exists filetype fs path of
                Inl e \<Rightarrow> Inl e
              | Inr found \<Rightarrow>
                  if \<not> found then
                    (case file_type_to_not_exists_exc filetype of
                       None \<Rightarrow> Inl (KeyError filetype)
                     | Some exc \<Rightarrow> Inl (exc path))
                  else Inr path))"

text \<open>
  The argument of \<open>get_valid_filename\<close> is a string or another object; of the latter
  only the outcome of \<^verbatim>\<open>str()\<close> on it matters.
\<close>

datatype pyobject = PyStr pystr | PyObject "exn + pystr"

fun py_str :: "pyobject \<Rightarrow> exn + pystr" where
  "py_str (PyStr s) = Inr s"
| "py_str (PyObject r) = r"

definition valid_filename_pattern :: pattern where
  "valid_filename_pattern =
     \<lparr>flag = SRE_FLAG_UNICODE, negate = True, items = [LITERAL 45, CATEGORY_WORD, LITERAL 46]\<rparr>"

definition get_valid_filename :: "unicode_db \<Rightarrow> pyobject \<Rightarrow> exn + pystr" where
  "get_valid_filename db s =
     (case py_str s of
        Inl e \<Rightarrow> Inl e
      | Inr s0 \<Rightarrow>
          (let s1 = str_replace (str_strip db s0) (ord_str '' '') (ord_str ''_'')
           in Inr (re_sub db valid_filename_pattern (ord_str ''_'') s1)))"

section \<open>The specification's wording of the sanitizer\<close>

text \<open>
  The reference definition of \<open>sanitize_filename\<close> (the specification's name of
  \<open>get_valid_filename\<close>), following its words: convert to a string, strip the leading
  and trailing whitespace, replace each space that is left by an underscore, then replace
  every character that is not a letter, a digit, an underscore, a hyphen or a period by an
  underscore. Letters and digits are those of the character database.
\<close>

definition is_letter :: "unicode_db \<Rightarrow> codepoint \<Rightarrow> bool" where
  "is_letter db ch = Py_UNICODE_ISALPHA db ch"

definition is_digit :: "unicode_db \<Rightarrow> codepoint \<Rightarrow> bool" where
  "is_digit db ch = (Py_UNICODE_ISDECIMAL db ch \<or> Py_UNICODE_ISDIGIT db ch \<or> Py_UNICODE_ISNUMERIC db ch)"

definition allowed_char :: "unicode_db \<Rightarrow> codepoint \<Rightarrow> bool" where
  "allowed_char db ch =
     (is_letter db ch \<or> is_digit db ch \<or> ch = UNDERSCORE \<or> ch = HYPHEN \<or> ch = PERIOD)"

definition strip_whitespace :: "unicode_db \<Rightarrow> pystr \<Rightarrow> pystr" where
  "strip_whitespace db s =
     rev (dropWhile (Py_UNICODE_ISSPACE db) (rev (dropWhile (Py_UNICODE_ISSPACE db) s)))"

definition sanitize_filename_spec :: "unicode_db \<Rightarrow> pyobject \<Rightarrow> exn + pystr" where
  "sanitize_filename_spec db x =
     (case py_str x of
        Inl e \<Rightarrow> Inl e
      | Inr s \<Rightarrow>
          Inr (map (\<lambda>ch. if allowed_char db ch then ch else UNDERSCORE)
                 (map (\<lambda>ch. if ch = SPACE then UNDERSCORE else ch) (strip_whitespace db s))))"


text \<open>A string of single-byte characters: every code point is below 128.\<close>

definition single_byte :: "pystr \<Rightarrow> bool" where
  "single_byte s = list_all (\<lambda>ch. ch < 128) s"


section \<open>The specification's wording of the path validator\<close>

text \<open>The kind that a call checks: \<open>FILE_OR_DIR\<close> when the argument is omitted.\<close>

definition kind_of_arg :: "FileType option \<Rightarrow> FileType" where
  "kind_of_arg filetype_arg = (case filetype_arg of None \<Rightarrow> FILE_OR_DIR | Some ft \<Rightarrow> ft)"

text \<open>
  The existence predicate of a kind: a regular file for \<open>FILE\<close>, a directory for
  \<open>DIR\<close>, plain existence for \<open>FILE_OR_DIR\<close>; and the error of a kind, carrying a path.
\<close>

definition kind_predicate :: "FileType \<Rightarrow> filesystem \<Rightarrow> Path \<Rightarrow> bool" where
  "kind_predicate kind fs p =
     (case kind of
        FILE \<Rightarrow> fs p = StatMode S_IFREG
      | DIR \<Rightarrow> fs p = StatMode S_IFDIR
      | FILE_OR_DIR \<Rightarrow> (case fs p of StatMode m \<Rightarrow> True | StatOSError errno \<Rightarrow> False
                        | StatValueError \<Rightarrow> False))"

text \<open>The outcome of \<^verbatim>\<open>os.stat\<close> that the queries do not answer: an error they raise again.\<close>

definition stat_error_escapes :: "filesystem \<Rightarrow> Path \<Rightarrow> bool" where
  "stat_error_escapes fs p =
     (case fs p of StatMode m \<Rightarrow> False | StatOSError errno \<Rightarrow> \<not> ignore_error errno
      | StatValueError \<Rightarrow> False)"

definition kind_error :: "FileType \<Rightarrow> Path \<Rightarrow> exn" where
  "kind_error kind p =
     (case kind of
        FILE \<Rightarrow> FileNotFoundError p
      | DIR \<Rightarrow> NotADirectoryError p
      | FILE_OR_DIR \<Rightarrow> NoSuchFileOrDirectoryError p)"

text \<open>
  The home directory of the invoking user is \<^verbatim>\<open>$HOME\<close> or, without it, the directory of
  the current user id in the password database. As a path, a home directory is taken
  without its trailing slashes (the root when nothing else is left), and the remaining
  components of the input are appended to it.
\<close>

definition invoking_user_home :: "os_env \<Rightarrow> pystr option" where
  "invoking_user_home env = (case environ_HOME env of None \<Rightarrow> getpwuid_dir env | Some h \<Rightarrow> Some h)"

definition home_path :: "pystr \<Rightarrow> Path" where
  "home_path h = Path_of (let d = str_rstrip SLASH h in if d = [] then [SLASH] else d)"

definition path_join :: "Path \<Rightarrow> pystr list \<Rightarrow> Path" where
  "path_join p comps = \<lparr>root = root p, tail = tail p @ comps\<rparr>"

text \<open>
  The expansion as the specification words it: a leading component \<^verbatim>\<open>~\<close> of a relative
  path becomes the home directory of the invoking user, and nothing else changes.
\<close>

definition spec_expand_tilde :: "os_env \<Rightarrow> Path \<Rightarrow> Path option" where
  "spec_expand_tilde env p =
     (if root p = [] \<and> tail p \<noteq> [] \<and> hd (tail p) = [TILDE]
      then map_option (\<lambda>h. path_join (home_path h) (tl (tail p))) (invoking_user_home env)
      else Some p)"

text \<open>
  The expansion with user names: a leading component \<^verbatim>\<open>~\<close> becomes the home directory
  of the invoking user, a leading component \<^verbatim>\<open>~name\<close> that of the user \<open>name\<close>, and
  nothing else changes. It is undefined when the home directory is unknown.
\<close>

definition user_home :: "os_env \<Rightarrow> pystr \<Rightarrow> pystr option" where
  "user_home env name =
     (if name = [] then invoking_user_home env
      else (case getpwnam env name of PwEntry h \<Rightarrow> Some h | PwKeyError \<Rightarrow> None
            | PwValueError \<Rightarrow> None))"

definition expand_home :: "os_env \<Rightarrow> Path \<Rightarrow> Path option" where
  "expand_home env p =
     (if root p = [] \<and> tail p \<noteq> [] \<and> take 1 (hd (tail p)) = [TILDE]
      then map_option (\<lambda>h. path_join (home_path h) (tl (tail p))) (user_home env (drop 1 (hd (tail p))))
      else Some p)"

text \<open>
  A component of a parsed path is not empty, has no slash and is not \<^verbatim>\<open>.\<close>.
\<close>

definition component :: "pystr \<Rightarrow> bool" where
  "component c = (c \<noteq> [] \<and> SLASH \<notin> set c \<and> c \<noteq> [PERIOD])"

subsection \<open>Sample environments\<close>

text \<open>
  The user alice with the users alice and bob in the password database; an environment
  where no home directory is known; and a small file system.
\<close>

definition env_alice :: os_env where
  "env_alice = \<lparr>environ_HOME = Some (ord_str ''/home/alice''),
     getpwuid_dir = Some (ord_str ''/home/alice''),
     getpwnam = (\<lambda>name.
       if 0 \<in> set name then PwValueError
       else if name = ord_str ''alice'' then PwEntry (ord_str ''/home/alice'')
       else if name = ord_str ''bob'' then PwEntry (ord_str ''/home/bob'')
       else PwKeyError)\<rparr>"

definition env_nohome :: os_env where
  "env_nohome = \<lparr>environ_HOME = None, getpwuid_dir = None, getpwnam = (\<lambda>name. PwKeyError)\<rparr>"

definition fs_sample :: filesystem where
  "fs_sample = (\<lambda>p.
     if p = Path_of (ord_str ''/etc'') then StatMode S_IFDIR
     else if p = Path_of (ord_str ''/etc/passwd'') then StatMode S_IFREG
     else if p = Path_of (ord_str ''/home/alice'') then StatMode S_IFDIR
     else if p = Path_of (ord_str ''/home/bob/x'') then StatMode S_IFREG
     else if p = Path_of (ord_str ''/root/secret'') then StatOSError EACCES
     else StatOSError ENOENT)"

section \<open>Properties of \<open>get_valid_filename\<close>\<close>

subsection \<open>The library functions on the arguments of the source\<close>

lemma ord_str_simps: "ord_str '' '' = [SPACE]" "ord_str ''_'' = [UNDERSCORE]"
  by (simp_all add: ord_str_def SPACE_def UNDERSCORE_def)

lemma take_rev_dropWhile: "take (length t - length (takeWhile P (rev t))) t = rev (dropWhile P (rev t))"
proof -
  have "rev t = takeWhile P (rev t) @ dropWhile P (rev t)" by simp
  then have "t = rev (dropWhile P (rev t)) @ rev (takeWhile P (rev t))"
    by (metis rev_append rev_rev_ident)
  then have "take (length (rev (dropWhile P (rev t)))) t = rev (dropWhile P (rev t))"
    by (metis append_eq_conv_conj)
  moreover have "length (rev (dropWhile P (rev t))) = length t - length (takeWhile P (rev t))"
    by (metis length_rev length_append takeWhile_dropWhile_id add_diff_cancel_left')
  ultimately show ?thesis by simp
qed

lemma str_strip_eq: "str_strip db s = strip_whitespace db s"
proof -
  let ?P = "Py_UNICODE_ISSPACE db"
  let ?t = "dropWhile ?P s"
  have d: "drop (length (takeWhile ?P s)) s = ?t" by (simp add: dropWhile_eq_drop)
  have l: "length s - length (takeWhile ?P (rev ?t)) - length (takeWhile ?P s)
         = length ?t - length (takeWhile ?P (rev ?t))"
    by (simp add: dropWhile_eq_drop)
  show ?thesis
    unfolding str_strip_def strip_whitespace_def Let_def d l by (rule take_rev_dropWhile)
qed

lemma replace_nonempty_single:
  "replace_nonempty [a] [b] s = map (\<lambda>ch. if ch = a then b else ch) s"
  by (induction s) (auto)

lemma str_replace_single: "str_replace s [a] [b] = map (\<lambda>ch. if ch = a then b else ch) s"
  by (simp add: str_replace_def replace_nonempty_single)

lemma re_sub_single: "re_sub db pat [u] s = map (\<lambda>ch. if set_matches db pat ch then u else ch) s"
  by (induction s) auto

lemma set_matches_pattern: "set_matches db valid_filename_pattern ch = (\<not> allowed_char db ch)"
  by (auto simp: set_matches_def valid_filename_pattern_def allowed_char_def is_letter_def is_digit_def
      Py_UNICODE_ISALNUM_def HYPHEN_def PERIOD_def)

lemma get_valid_filename_spec: "get_valid_filename db x = sanitize_filename_spec db x"
  by (simp add: get_valid_filename_def sanitize_filename_spec_def ord_str_simps str_strip_eq
      str_replace_single re_sub_single set_matches_pattern split: sum.splits)

lemma underscore_not_space: "\<not> Py_UNICODE_ISSPACE db UNDERSCORE"
  by (simp add: Py_UNICODE_ISSPACE_def UNDERSCORE_def ascii_whitespace_def)

lemma allowed_underscore: "allowed_char db UNDERSCORE"
  by (simp add: allowed_char_def)

lemma space_not_allowed: "\<not> allowed_char db SPACE"
  by (simp add: allowed_char_def is_letter_def is_digit_def SPACE_def UNDERSCORE_def HYPHEN_def PERIOD_def
      Py_UNICODE_ISALPHA_def Py_UNICODE_ISDECIMAL_def Py_UNICODE_ISDIGIT_def Py_UNICODE_ISNUMERIC_def
      ascii_letter_def ascii_number_def)

lemma slash_not_allowed: "\<not> allowed_char db SLASH"
  by (simp add: allowed_char_def is_letter_def is_digit_def SLASH_def UNDERSCORE_def HYPHEN_def PERIOD_def
      Py_UNICODE_ISALPHA_def Py_UNICODE_ISDECIMAL_def Py_UNICODE_ISDIGIT_def Py_UNICODE_ISNUMERIC_def
      ascii_letter_def ascii_number_def)

lemma gvf_Inr: "py_str x = Inr s \<Longrightarrow>
  get_valid_filename db x = Inr (map (\<lambda>ch. if allowed_char db ch then ch else UNDERSCORE)
                 (map (\<lambda>ch. if ch = SPACE then UNDERSCORE else ch) (strip_whitespace db s)))"
  by (simp add: get_valid_filename_spec sanitize_filename_spec_def)

lemma gvf_Inr_iff: "get_valid_filename db x = Inr r \<longleftrightarrow>
  (\<exists>s. py_str x = Inr s \<and> r = map (\<lambda>ch. if allowed_char db ch then ch else UNDERSCORE)
                 (map (\<lambda>ch. if ch = SPACE then UNDERSCORE else ch) (strip_whitespace db s)))"
  by (auto simp add: get_valid_filename_spec sanitize_filename_spec_def split: sum.splits)

lemma strip_whitespace_length: "length (strip_whitespace db s) \<le> length s"
proof -
  have "length (dropWhile (Py_UNICODE_ISSPACE db) (rev (dropWhile (Py_UNICODE_ISSPACE db) s)))
        \<le> length (rev (dropWhile (Py_UNICODE_ISSPACE db) s))"
    by (rule length_dropWhile_le)
  also have "\<dots> \<le> length s" by (simp add: length_dropWhile_le)
  finally show ?thesis by (simp add: strip_whitespace_def)
qed

lemma last_dropWhile: "dropWhile P xs \<noteq> [] \<Longrightarrow> last (dropWhile P xs) = last xs"
  by (induction xs) (auto split: if_splits)

lemma strip_whitespace_id:
  assumes "s \<noteq> [] \<longrightarrow> \<not> Py_UNICODE_ISSPACE db (hd s) \<and> \<not> Py_UNICODE_ISSPACE db (last s)"
  shows "strip_whitespace db s = s"
proof (cases s)
  case Nil
  then show ?thesis by (simp add: strip_whitespace_def)
next
  case (Cons c cs)
  with assms have h: "\<not> Py_UNICODE_ISSPACE db (hd s)" and l: "\<not> Py_UNICODE_ISSPACE db (last s)"
    by simp_all
  from Cons h have 1: "dropWhile (Py_UNICODE_ISSPACE db) s = s" by simp
  from Cons have "s = butlast s @ [last s]" by simp
  then have r: "rev s = last s # rev (butlast s)" by (simp add: rev_eq_Cons_iff)
  have 2: "dropWhile (Py_UNICODE_ISSPACE db) (rev s) = rev s"
    unfolding r using l by simp
  show ?thesis by (simp add: strip_whitespace_def 1 2)
qed

lemma strip_whitespace_ends:
  assumes "strip_whitespace db s \<noteq> []"
  shows "\<not> Py_UNICODE_ISSPACE db (hd (strip_whitespace db s))"
    and "\<not> Py_UNICODE_ISSPACE db (last (strip_whitespace db s))"
proof -
  let ?P = "Py_UNICODE_ISSPACE db"
  let ?t = "dropWhile ?P s"
  let ?u = "dropWhile ?P (rev ?t)"
  from assms have u: "?u \<noteq> []" by (simp add: strip_whitespace_def)
  then have "\<not> ?P (hd ?u)" by (rule hd_dropWhile)
  with u show "\<not> ?P (last (strip_whitespace db s))"
    by (simp add: strip_whitespace_def last_rev)
  have t: "?t \<noteq> []"
  proof
    assume e: "?t = []"
    have "?u = []" unfolding e by simp
    with u show False by simp
  qed
  then have ht: "\<not> ?P (hd ?t)" by (rule hd_dropWhile)
  from u have "last ?u = last (rev ?t)" by (rule last_dropWhile)
  also have "\<dots> = hd ?t" using t by (simp add: last_rev)
  finally have "last ?u = hd ?t" .
  with u ht show "\<not> ?P (hd (strip_whitespace db s))"
    by (simp add: strip_whitespace_def hd_rev)
qed

lemmas char_defs = SPACE_def HYPHEN_def PERIOD_def SLASH_def UNDERSCORE_def TILDE_def

lemmas class_defs = Py_UNICODE_ISSPACE_def Py_UNICODE_ISALNUM_def Py_UNICODE_ISALPHA_def
  Py_UNICODE_ISDECIMAL_def Py_UNICODE_ISDIGIT_def Py_UNICODE_ISNUMERIC_def
  ascii_whitespace_def ascii_letter_def ascii_number_def

lemmas gvf_eval = get_valid_filename_def ord_str_def str_strip_def str_replace_def
  valid_filename_pattern_def set_matches_def class_defs UNDERSCORE_def latin1_db_def ascii_db_def

lemma sanitized_allowed:
  "ch \<in> set (map (\<lambda>ch. if allowed_char db ch then ch else UNDERSCORE) t) \<Longrightarrow> allowed_char db ch"
  by (auto simp: allowed_underscore)

lemma sanitized_fixed:
  assumes "\<forall>ch \<in> set r. allowed_char db ch"
  shows "map (\<lambda>ch. if allowed_char db ch then ch else UNDERSCORE)
           (map (\<lambda>ch. if ch = SPACE then UNDERSCORE else ch) r) = r"
proof -
  have "\<forall>ch \<in> set r. ch \<noteq> SPACE" using assms space_not_allowed by auto
  then have "map (\<lambda>ch. if ch = SPACE then UNDERSCORE else ch) r = r"
    by (induction r) auto
  moreover have "map (\<lambda>ch. if allowed_char db ch then ch else UNDERSCORE) r = r"
    using assms by (induction r) auto
  ultimately show ?thesis by simp
qed


lemma allowed_not_space: "db_wf db \<Longrightarrow> allowed_char db ch \<Longrightarrow> \<not> Py_UNICODE_ISSPACE db ch"
proof
  assume wf: "db_wf db" and al: "allowed_char db ch" and sp: "Py_UNICODE_ISSPACE db ch"
  from wf sp have "\<not> Py_UNICODE_ISALNUM db ch" by (simp add: db_wf_def)
  with al have "ch = UNDERSCORE \<or> ch = HYPHEN \<or> ch = PERIOD"
    by (auto simp: allowed_char_def is_letter_def is_digit_def Py_UNICODE_ISALNUM_def)
  with sp show False
    by (auto simp: Py_UNICODE_ISSPACE_def ascii_whitespace_def char_defs)
qed


lemma latin1_wf: "db_wf latin1_db"
  by (auto simp: db_wf_def latin1_db_def class_defs)


subsection \<open>The claims about the sanitizer\<close>

text \<open>
  C4. For every input value, \<open>get_valid_filename\<close> equals the reference definition:
  the string representation, stripped of leading and trailing whitespace, with each
  remaining space and then every character that is not a letter, digit, underscore,
  hyphen or period replaced by an underscore. When the conversion to a string raises,
  both raise the same exception. In particular \<^verbatim>\<open>5678^()^\<close> becomes \<^verbatim>\<open>5678____\<close>.
\<close>

theorem get_valid_filename_refines_spec:
  "get_valid_filename db x = sanitize_filename_spec db x \<and>
   get_valid_filename db (PyStr (ord_str ''5678^()^'')) = Inr (ord_str ''5678____'')"
proof
  show "get_valid_filename db x = sanitize_filename_spec db x"
    by (rule get_valid_filename_spec)
  show "get_valid_filename db (PyStr (ord_str ''5678^()^'')) = Inr (ord_str ''5678____'')"
    by (simp add: get_valid_filename_def ord_str_def str_strip_def str_replace_def
        valid_filename_pattern_def set_matches_def class_defs UNDERSCORE_def)
qed

text \<open>
  C5. \<open>get_valid_filename\<close> is idempotent: applied to its own result \<open>r\<close> it returns
  \<open>r\<close>. This holds for every character database: the first and the last character of a
  result are never whitespace, and a result has no space and no disallowed character.
\<close>

theorem get_valid_filename_idempotent:
  "get_valid_filename db x = Inr r \<Longrightarrow> get_valid_filename db (PyStr r) = Inr r"
proof -
  assume a: "get_valid_filename db x = Inr r"
  let ?f = "\<lambda>ch. if allowed_char db ch then ch else UNDERSCORE"
  let ?g = "\<lambda>ch. if ch = SPACE then UNDERSCORE else ch"
  from a obtain s where r: "r = map ?f (map ?g (strip_whitespace db s))"
    by (auto simp: gvf_Inr_iff)
  let ?t = "strip_whitespace db s"
  have al: "\<forall>ch \<in> set r. allowed_char db ch"
    unfolding r using sanitized_allowed by blast
  have "strip_whitespace db r = r"
  proof (rule strip_whitespace_id, rule impI)
    assume "r \<noteq> []"
    then have t: "?t \<noteq> []" by (simp add: r)
    have h: "hd r = ?f (?g (hd ?t))" using t by (simp add: r hd_map)
    have l: "last r = ?f (?g (last ?t))" using t by (simp add: r last_map)
    show "\<not> Py_UNICODE_ISSPACE db (hd r) \<and> \<not> Py_UNICODE_ISSPACE db (last r)"
      unfolding h l using strip_whitespace_ends[OF t] by (simp add: underscore_not_space)
  qed
  then show ?thesis
    using sanitized_fixed[OF al] by (simp add: gvf_Inr_iff)
qed

theorem get_valid_filename_idempotent_witness:
  "get_valid_filename latin1_db (PyStr (ord_str '' a b^ '')) = Inr (ord_str ''a_b_'') \<and>
   get_valid_filename latin1_db (PyStr (ord_str ''a_b_'')) = Inr (ord_str ''a_b_'')"
proof -
  have h: "get_valid_filename latin1_db (PyStr (ord_str '' a b^ '')) = Inr (ord_str ''a_b_'')"
    by (simp add: gvf_eval)
  show ?thesis using h get_valid_filename_idempotent [OF h] by simp
qed

text \<open>
  C6, as stated: for every input of single-byte characters the output has the length of
  the input. It fails on an input with a leading space, which \<^verbatim>\<open>strip()\<close> removes.
\<close>

theorem same_length_counterexample:
  "get_valid_filename ascii_db (PyStr (ord_str '' a'')) = Inr (ord_str ''a'') \<and>
   single_byte (ord_str '' a'') \<and> length (ord_str '' a'') \<noteq> length (ord_str ''a'')"
  by (simp add: gvf_eval single_byte_def)

text \<open>
  C6, amended: for every input whose string representation neither begins nor ends with
  a whitespace character (single-byte characters or not), the output has the length of
  the input.
\<close>

theorem get_valid_filename_same_length:
  assumes "py_str x = Inr s"
    and "s \<noteq> [] \<longrightarrow> \<not> Py_UNICODE_ISSPACE db (hd s) \<and> \<not> Py_UNICODE_ISSPACE db (last s)"
  shows "\<exists>r. get_valid_filename db x = Inr r \<and> length r = length s"
  using assms(1) strip_whitespace_id[OF assms(2)] by (simp add: gvf_Inr)

theorem get_valid_filename_same_length_witness:
  "py_str (PyStr (ord_str ''a b/c'')) = Inr (ord_str ''a b/c'') \<and>
   \<not> Py_UNICODE_ISSPACE latin1_db (hd (ord_str ''a b/c'')) \<and>
   \<not> Py_UNICODE_ISSPACE latin1_db (last (ord_str ''a b/c'')) \<and>
   (\<exists>r. get_valid_filename latin1_db (PyStr (ord_str ''a b/c'')) = Inr r \<and>
        length r = length (ord_str ''a b/c''))"
proof -
  have 1: "py_str (PyStr (ord_str ''a b/c'')) = Inr (ord_str ''a b/c'')" by simp
  have 2: "\<not> Py_UNICODE_ISSPACE latin1_db (hd (ord_str ''a b/c''))"
    by (simp add: ord_str_def class_defs)
  have 3: "\<not> Py_UNICODE_ISSPACE latin1_db (last (ord_str ''a b/c''))"
    by (simp add: ord_str_def class_defs)
  from 2 3 have 4: "ord_str ''a b/c'' \<noteq> [] \<longrightarrow>
      \<not> Py_UNICODE_ISSPACE latin1_db (hd (ord_str ''a b/c'')) \<and>
      \<not> Py_UNICODE_ISSPACE latin1_db (last (ord_str ''a b/c''))" by simp
  show ?thesis using 1 2 3 get_valid_filename_same_length [OF 1 4] by simp
qed

text \<open>
  C7. On a string \<open>get_valid_filename\<close> never raises: it returns a string, and on the
  empty string it returns the empty string.
\<close>

theorem get_valid_filename_total:
  "(\<exists>r. get_valid_filename db (PyStr s) = Inr r) \<and> get_valid_filename db (PyStr []) = Inr []"
  by (simp add: gvf_Inr strip_whitespace_def)

text \<open>
  C8. Every character of a result is a word character of the pattern (\<^verbatim>\<open>\w\<close> under
  \<^verbatim>\<open>re.UNICODE\<close>), a hyphen or a period. It is never a slash, and never whitespace in a
  character database where no whitespace character is alphanumeric.
\<close>

theorem get_valid_filename_chars:
  "get_valid_filename db x = Inr r \<Longrightarrow> ch \<in> set r \<Longrightarrow>
   (item_matches db SRE_FLAG_UNICODE CATEGORY_WORD ch \<or> ch = HYPHEN \<or> ch = PERIOD) \<and>
   ch \<noteq> SLASH \<and> (db_wf db \<longrightarrow> \<not> Py_UNICODE_ISSPACE db ch)"
proof -
  assume a: "get_valid_filename db x = Inr r" and c: "ch \<in> set r"
  from a obtain s where r: "r = map (\<lambda>ch. if allowed_char db ch then ch else UNDERSCORE)
      (map (\<lambda>ch. if ch = SPACE then UNDERSCORE else ch) (strip_whitespace db s))"
    by (auto simp: gvf_Inr_iff)
  from c have al: "allowed_char db ch" unfolding r by (rule sanitized_allowed)
  then have "item_matches db SRE_FLAG_UNICODE CATEGORY_WORD ch \<or> ch = HYPHEN \<or> ch = PERIOD"
    by (auto simp: allowed_char_def is_letter_def is_digit_def Py_UNICODE_ISALNUM_def)
  moreover from al have "ch \<noteq> SLASH" using slash_not_allowed by auto
  moreover from al have "db_wf db \<longrightarrow> \<not> Py_UNICODE_ISSPACE db ch" by (simp add: allowed_not_space)
  ultimately show ?thesis by simp
qed

theorem get_valid_filename_chars_witness:
  "get_valid_filename latin1_db (PyStr [133, 32, 233, 32, 189, 160, 215, 160])
     = Inr [233, 95, 189, 95, 95] \<and>
   db_wf latin1_db \<and>
   item_matches latin1_db SRE_FLAG_UNICODE CATEGORY_WORD 233 \<and>
   233 \<noteq> SLASH \<and> \<not> Py_UNICODE_ISSPACE latin1_db 233"
proof -
  have h: "get_valid_filename latin1_db (PyStr [133, 32, 233, 32, 189, 160, 215, 160])
     = Inr [233, 95, 189, 95, 95]"
    by (simp add: gvf_eval)
  have m: "(233::nat) \<in> set [233, 95, 189, 95, 95]" by simp
  have ne: "(233::nat) \<noteq> HYPHEN" "(233::nat) \<noteq> PERIOD" by (simp_all add: char_defs)
  show ?thesis using h latin1_wf ne get_valid_filename_chars [OF h m] by simp
qed

text \<open>
  C9. The result is never longer than the string representation of the input.
\<close>

theorem get_valid_filename_length_le:
  assumes "py_str x = Inr s"
  shows "\<exists>r. get_valid_filename db x = Inr r \<and> length r \<le> length s"
  using assms strip_whitespace_length[of db s] by (simp add: gvf_Inr)

theorem get_valid_filename_length_le_witness:
  "py_str (PyStr (ord_str '' a b^ '')) = Inr (ord_str '' a b^ '') \<and>
   (\<exists>r. get_valid_filename latin1_db (PyStr (ord_str '' a b^ '')) = Inr r \<and>
        length r \<le> length (ord_str '' a b^ ''))"
proof -
  have 1: "py_str (PyStr (ord_str '' a b^ '')) = Inr (ord_str '' a b^ '')" by simp
  show ?thesis using 1 get_valid_filename_length_le [OF 1] by simp
qed

section \<open>Properties of \<open>valid_path\<close>\<close>

subsection \<open>The lookup tables and the path parser\<close>

lemmas errno_defs = ENOENT_def EBADF_def EACCES_def ENOTDIR_def ENAMETOOLONG_def ELOOP_def

lemma exists_eq:
  "FileType_exists kind fs p =
     (if stat_error_escapes fs p
      then (case fs p of StatOSError errno \<Rightarrow> Inl (OSError errno (path_str p))
            | StatMode m \<Rightarrow> Inr False | StatValueError \<Rightarrow> Inr False)
      else Inr (kind_predicate kind fs p))"
  by (cases kind; cases "fs p")
     (simp_all add: FileType_exists_def file_type_to_exists_fn_def kind_predicate_def
        stat_error_escapes_def is_file_def is_dir_def path_exists_def)

lemma exc_eq: "file_type_to_not_exists_exc kind = Some (kind_error kind)"
  by (cases kind) (auto simp add: file_type_to_not_exists_exc_def kind_error_def)

lemma valid_path_eq:
  "valid_path env fs s filetype_arg =
     (case expanduser env (Path_of s) of
        Inl e \<Rightarrow> Inl e
      | Inr p \<Rightarrow>
          if stat_error_escapes fs p
          then (case fs p of StatOSError errno \<Rightarrow> Inl (OSError errno (path_str p))
                | StatMode m \<Rightarrow> Inl (kind_error (kind_of_arg filetype_arg) p)
                | StatValueError \<Rightarrow> Inl (kind_error (kind_of_arg filetype_arg) p))
          else if kind_predicate (kind_of_arg filetype_arg) fs p then Inr p
          else Inl (kind_error (kind_of_arg filetype_arg) p))"
  by (cases "fs (projr (expanduser env (Path_of s)))")
     (auto simp add: valid_path_def kind_of_arg_def exists_eq exc_eq Let_def stat_error_escapes_def
        split: sum.splits stat_result.splits)

lemmas path_eval = Path_of_def from_parts_def splitroot_def ord_str_def char_defs
  expanduser_def posixpath_expanduser_def str_rstrip_def Let_def

lemmas fs_eval = fs_sample_def kind_predicate_def stat_error_escapes_def ignore_error_def
  errno_defs kind_of_arg_def kind_error_def path_str_def

lemma str_split_no_sep: "w \<in> set (str_split sep s) \<Longrightarrow> sep \<notin> set w"
  by (induction s arbitrary: w) (auto split: if_splits list.splits)

lemma str_split_single: "sep \<notin> set c \<Longrightarrow> str_split sep c = [c]"
  by (induction c) auto

lemma parse_parts_rev_components: "c \<in> set (snd (parse_parts_rev ps)) \<Longrightarrow> component c"
proof (induction ps arbitrary: c)
  case Nil
  then show ?case by simp
next
  case (Cons part it)
  from Cons.prems show ?case
    using Cons.IH[of c]
    by (auto simp: Let_def component_def split: if_splits prod.splits dest: str_split_no_sep)
qed

lemma Path_of_components: "c \<in> set (tail (Path_of s)) \<Longrightarrow> component c"
  using parse_parts_rev_components[of c "[s]"]
  by (simp add: Path_of_def from_parts_def split: prod.splits)

lemma splitroot_component: "component c \<Longrightarrow> splitroot c = ([], c)"
  by (cases c) (auto simp: component_def splitroot_def)

lemma parse_parts_rev_append:
  "\<forall>c \<in> set cs. component c \<Longrightarrow>
   parse_parts_rev (rev cs @ ys) = (fst (parse_parts_rev ys), snd (parse_parts_rev ys) @ cs)"
proof (induction cs rule: rev_induct)
  case Nil
  then show ?case by simp
next
  case (snoc c cs)
  then have c: "component c" and cs: "\<forall>c \<in> set cs. component c" by simp_all
  from c have ne: "c \<noteq> []" and sp: "str_split SLASH c = [c]" and np: "c \<noteq> [PERIOD]"
    by (simp_all add: component_def str_split_single)
  show ?case
    using snoc.IH[OF cs] ne np by (simp add: splitroot_component[OF c] sp)
qed

lemma from_parts_join:
  "\<forall>c \<in> set cs. component c \<Longrightarrow> from_parts (h # cs) = path_join (Path_of h) cs"
  using parse_parts_rev_append[of cs "[h]"]
  by (simp add: from_parts_def Path_of_def path_join_def split: prod.splits)

lemma posixpath_expanduser_component:
  assumes "SLASH \<notin> set c" and "take 1 c = [TILDE]"
  shows "posixpath_expanduser env c =
     (if drop 1 c \<noteq> [] \<and> getpwnam env (drop 1 c) = PwValueError then Inl ValueError
      else Inr (case user_home env (drop 1 c) of
                  None \<Rightarrow> c
                | Some h \<Rightarrow> (let d = str_rstrip SLASH h in if d = [] then [SLASH] else d)))"
proof -
  from assms(2) obtain cs where c: "c = TILDE # cs" by (cases c) auto
  from assms(1) c have n: "SLASH \<notin> set cs" by simp
  show ?thesis
    using n by (cases cs)
      (auto simp: c posixpath_expanduser_def user_home_def invoking_user_home_def Let_def
        split: option.splits pw_lookup.splits)
qed

lemma expanduser_Inl:
  "expanduser env (Path_of s) = Inl e \<Longrightarrow>
   e = RuntimeError (ord_str ''Could not determine home directory.'') \<or> e = ValueError"
proof -
  assume a: "expanduser env (Path_of s) = Inl e"
  let ?c = "hd (tail (Path_of s))"
  from a have t: "root (Path_of s) = [] \<and> tail (Path_of s) \<noteq> [] \<and> take 1 ?c = [TILDE]"
    by (auto simp: expanduser_def split: if_splits)
  then have "?c \<in> set (tail (Path_of s))" by simp
  then have "component ?c" by (rule Path_of_components)
  then have ns: "SLASH \<notin> set ?c" by (simp add: component_def)
  from t have tt: "take 1 ?c = [TILDE]" by simp
  note pe = posixpath_expanduser_component[OF ns tt, of env]
  from a t show ?thesis
    by (auto simp: expanduser_def pe split: if_splits sum.splits)
qed

lemma expanduser_Inr:
  assumes "expanduser env (Path_of s) = Inr p"
  shows "expand_home env (Path_of s) = Some p"
proof (cases "root (Path_of s) = [] \<and> tail (Path_of s) \<noteq> [] \<and> take 1 (hd (tail (Path_of s))) = [TILDE]")
  case False
  with assms show ?thesis by (auto simp: expanduser_def expand_home_def)
next
  case True
  let ?c = "hd (tail (Path_of s))"
  let ?rest = "tl (tail (Path_of s))"
  from True have cin: "?c \<in> set (tail (Path_of s))" by simp
  then have "component ?c" by (rule Path_of_components)
  then have ns: "SLASH \<notin> set ?c" by (simp add: component_def)
  from True have t: "take 1 ?c = [TILDE]" by simp
  have rest: "\<forall>c \<in> set ?rest. component c"
    using Path_of_components[of _ s] True by (auto dest: list.set_sel(2))
  note pe = posixpath_expanduser_component[OF ns t, of env]
  show ?thesis
  proof (cases "user_home env (drop 1 ?c)")
    case None
    with assms True pe t show ?thesis
      by (auto simp: expanduser_def split: if_splits)
  next
    case (Some h)
    let ?d = "(let d = str_rstrip SLASH h in if d = [] then [SLASH] else d)"
    from assms True Some pe have "p = from_parts (?d # ?rest)"
      by (auto simp: expanduser_def split: if_splits)
    also have "\<dots> = path_join (Path_of ?d) ?rest" by (rule from_parts_join[OF rest])
    finally show ?thesis using True Some by (simp add: expand_home_def home_path_def)
  qed
qed

subsection \<open>The claims about the path validator\<close>

text \<open>
  C1, as stated: for every input string and kind, \<open>valid_path\<close> returns a path iff the
  predicate of the kind holds of the expanded path, and otherwise raises the error of the
  kind. It fails in two ways. On an input that names an unknown user
  \<^verbatim>\<open>Path.expanduser\<close> raises \<open>RuntimeError\<close>, so there is neither a path nor one of
  the three errors. On a path where \<^verbatim>\<open>os.stat\<close> is denied the query raises the
  \<open>OSError\<close> again, where the statement asks for \<open>FileNotFoundError\<close>.
\<close>

theorem valid_path_other_errors_counterexample:
  "valid_path env_alice fs_sample (ord_str ''~nosuchuser'') None =
     Inl (RuntimeError (ord_str ''Could not determine home directory.'')) \<and>
   valid_path env_alice fs_sample (ord_str ''/root/secret'') (Some FILE) =
     Inl (OSError EACCES (ord_str ''/root/secret''))"
proof
  show "valid_path env_alice fs_sample (ord_str ''~nosuchuser'') None =
     Inl (RuntimeError (ord_str ''Could not determine home directory.''))"
    by (simp add: valid_path_eq path_eval env_alice_def)
  show "valid_path env_alice fs_sample (ord_str ''/root/secret'') (Some FILE) =
     Inl (OSError EACCES (ord_str ''/root/secret''))"
    by (simp add: valid_path_eq path_eval fs_eval)
qed

text \<open>
  C1, amended: for every input string whose expansion succeeds with the path \<open>p\<close>, where
  \<^verbatim>\<open>os.stat\<close> on \<open>p\<close> does not fail with an error that the queries raise again, and
  for every kind (\<open>FILE_OR_DIR\<close> when omitted), \<open>valid_path\<close> returns \<open>p\<close> iff the
  predicate of the kind holds of \<open>p\<close>, and otherwise raises exactly the error of the
  kind, carrying \<open>p\<close>.
\<close>

theorem valid_path_succeeds_iff:
  assumes "expanduser env (Path_of s) = Inr p"
    and "\<not> stat_error_escapes fs p"
  shows "(valid_path env fs s filetype_arg = Inr p \<longleftrightarrow>
            kind_predicate (kind_of_arg filetype_arg) fs p) \<and>
         (\<not> kind_predicate (kind_of_arg filetype_arg) fs p \<longrightarrow>
            valid_path env fs s filetype_arg = Inl (kind_error (kind_of_arg filetype_arg) p))"
  using assms by (simp add: valid_path_eq)

theorem valid_path_succeeds_iff_witness:
  "expanduser env_alice (Path_of (ord_str ''/etc'')) = Inr (Path_of (ord_str ''/etc'')) \<and>
   \<not> stat_error_escapes fs_sample (Path_of (ord_str ''/etc'')) \<and>
   \<not> kind_predicate FILE fs_sample (Path_of (ord_str ''/etc'')) \<and>
   valid_path env_alice fs_sample (ord_str ''/etc'') (Some FILE)
     = Inl (FileNotFoundError (Path_of (ord_str ''/etc''))) \<and>
   kind_predicate FILE_OR_DIR fs_sample (Path_of (ord_str ''/etc'')) \<and>
   valid_path env_alice fs_sample (ord_str ''/etc'') None = Inr (Path_of (ord_str ''/etc''))"
proof -
  have e: "expanduser env_alice (Path_of (ord_str ''/etc'')) = Inr (Path_of (ord_str ''/etc''))"
    by (simp add: path_eval)
  have a: "\<not> stat_error_escapes fs_sample (Path_of (ord_str ''/etc''))"
    by (simp add: stat_error_escapes_def fs_sample_def path_eval)
  have n: "\<not> kind_predicate FILE fs_sample (Path_of (ord_str ''/etc''))"
    by (simp add: kind_predicate_def fs_sample_def path_eval)
  have y: "kind_predicate FILE_OR_DIR fs_sample (Path_of (ord_str ''/etc''))"
    by (simp add: kind_predicate_def fs_sample_def path_eval)
  show ?thesis
    using e a n y valid_path_succeeds_iff [OF e a, of "Some FILE"]
      valid_path_succeeds_iff [OF e a, of None]
    by (simp add: kind_of_arg_def kind_error_def)
qed

text \<open>
  C2, as stated: \<open>FileType.exists\<close> is a query with no error cases. It fails on a path
  where \<^verbatim>\<open>os.stat\<close> is denied: the query raises the \<open>OSError\<close> again.
\<close>

theorem FileType_exists_raises_counterexample:
  "FileType_exists FILE fs_sample (Path_of (ord_str ''/root/secret'')) =
     Inl (OSError EACCES (ord_str ''/root/secret''))"
  by (simp add: exists_eq path_eval fs_eval)

text \<open>
  C2, amended: for every kind and every path on which \<^verbatim>\<open>os.stat\<close> does not fail with
  an error other than ENOENT, ENOTDIR, EBADF and ELOOP, \<open>FileType.exists\<close> returns
  whether the entity at the path matches the kind: a regular file for \<open>FILE\<close>, a
  directory for \<open>DIR\<close>, anything for \<open>FILE_OR_DIR\<close>. The lookup in the table never
  fails, and an absent path gives false. Its one error case is an \<open>OSError\<close> of
  \<^verbatim>\<open>os.stat\<close> with another error number, which it lets through.
\<close>

theorem FileType_exists_correct:
  "(\<not> stat_error_escapes fs p \<longrightarrow> FileType_exists kind fs p = Inr (kind_predicate kind fs p)) \<and>
   (fs p = StatOSError ENOENT \<longrightarrow> FileType_exists kind fs p = Inr False) \<and>
   (fs p = StatOSError errno \<and> \<not> ignore_error errno \<longrightarrow>
      FileType_exists kind fs p = Inl (OSError errno (path_str p)))"
  by (cases kind)
     (auto simp add: exists_eq kind_predicate_def stat_error_escapes_def ignore_error_def)

theorem FileType_exists_correct_witness:
  "fs_sample (Path_of (ord_str ''/nonexistent'')) = StatOSError ENOENT \<and>
   FileType_exists DIR fs_sample (Path_of (ord_str ''/nonexistent'')) = Inr False \<and>
   \<not> stat_error_escapes fs_sample (Path_of (ord_str ''/etc'')) \<and>
   FileType_exists DIR fs_sample (Path_of (ord_str ''/etc'')) = Inr True \<and>
   FileType_exists FILE fs_sample (Path_of (ord_str ''/etc'')) = Inr False \<and>
   fs_sample (Path_of (ord_str ''/root/secret'')) = StatOSError EACCES \<and>
   \<not> ignore_error EACCES \<and>
   FileType_exists FILE_OR_DIR fs_sample (Path_of (ord_str ''/root/secret'')) =
     Inl (OSError EACCES (path_str (Path_of (ord_str ''/root/secret''))))"
proof -
  let ?n = "Path_of (ord_str ''/nonexistent'')"
  let ?e = "Path_of (ord_str ''/etc'')"
  let ?s = "Path_of (ord_str ''/root/secret'')"
  have a: "fs_sample ?n = StatOSError ENOENT"
    by (simp add: fs_sample_def path_eval)
  have b: "\<not> stat_error_escapes fs_sample ?e"
    by (simp add: stat_error_escapes_def fs_sample_def path_eval)
  have d: "kind_predicate DIR fs_sample ?e"
    by (simp add: kind_predicate_def fs_sample_def path_eval)
  have f: "\<not> kind_predicate FILE fs_sample ?e"
    by (simp add: kind_predicate_def fs_sample_def path_eval)
  have c: "fs_sample ?s = StatOSError EACCES"
    by (simp add: fs_sample_def path_eval)
  have i: "\<not> ignore_error EACCES"
    by (simp add: ignore_error_def errno_defs)
  have 1: "FileType_exists DIR fs_sample ?n = Inr False"
    using a FileType_exists_correct [where fs = fs_sample and p = ?n and kind = DIR] by blast
  have 2: "FileType_exists DIR fs_sample ?e = Inr True"
    using b d FileType_exists_correct [where fs = fs_sample and p = ?e and kind = DIR] by simp
  have 3: "FileType_exists FILE fs_sample ?e = Inr False"
    using b f FileType_exists_correct [where fs = fs_sample and p = ?e and kind = FILE] by simp
  have 4: "FileType_exists FILE_OR_DIR fs_sample ?s = Inl (OSError EACCES (path_str ?s))"
    using c i FileType_exists_correct [where fs = fs_sample and p = ?s and errno = EACCES and kind = FILE_OR_DIR] by blast
  from a b c i 1 2 3 4 show ?thesis by blast
qed

text \<open>
  C3, as stated: the returned path is the input with a leading \<^verbatim>\<open>~\<close> expanded to the
  home directory of the invoking user, and nothing else changed. It fails on \<^verbatim>\<open>~bob/x\<close>
  called by alice: the result is in the home directory of bob, where the expansion of the
  statement leaves the path as it is.
\<close>

theorem valid_path_other_user_counterexample:
  "valid_path env_alice fs_sample (ord_str ''~bob/x'') None = Inr (Path_of (ord_str ''/home/bob/x'')) \<and>
   spec_expand_tilde env_alice (Path_of (ord_str ''~bob/x'')) = Some (Path_of (ord_str ''~bob/x'')) \<and>
   Path_of (ord_str ''/home/bob/x'') \<noteq> Path_of (ord_str ''~bob/x'')"
proof -
  have 1: "valid_path env_alice fs_sample (ord_str ''~bob/x'') None = Inr (Path_of (ord_str ''/home/bob/x''))"
    by (simp add: valid_path_eq path_eval env_alice_def fs_eval)
  have 2: "spec_expand_tilde env_alice (Path_of (ord_str ''~bob/x'')) = Some (Path_of (ord_str ''~bob/x''))"
    by (simp add: spec_expand_tilde_def path_eval)
  have 3: "Path_of (ord_str ''/home/bob/x'') \<noteq> Path_of (ord_str ''~bob/x'')"
    by (simp add: path_eval)
  from 1 2 3 show ?thesis by blast
qed

text \<open>
  C3, amended: the returned path is the parsed input with a leading component \<^verbatim>\<open>~\<close>
  expanded to the home directory of the invoking user, or a leading component
  \<^verbatim>\<open>~name\<close> expanded to the home directory of that user, and nothing else changed: the
  other components are kept in order, nothing is resolved or made absolute.
\<close>

theorem valid_path_returns_expansion:
  "valid_path env fs s filetype_arg = Inr p \<Longrightarrow> expand_home env (Path_of s) = Some p"
  by (rule expanduser_Inr)
     (auto simp: valid_path_eq split: sum.splits if_splits stat_result.splits)

theorem valid_path_returns_expansion_witness:
  "valid_path env_alice fs_sample (ord_str ''~'') (Some DIR) = Inr (Path_of (ord_str ''/home/alice'')) \<and>
   expand_home env_alice (Path_of (ord_str ''~'')) = Some (Path_of (ord_str ''/home/alice''))"
proof -
  have h: "valid_path env_alice fs_sample (ord_str ''~'') (Some DIR) = Inr (Path_of (ord_str ''/home/alice''))"
    by (simp add: valid_path_eq path_eval env_alice_def fs_eval)
  show ?thesis using h valid_path_returns_expansion [OF h] by simp
qed

text \<open>
  C10, as stated: whenever \<open>valid_path\<close> raises, the exception carries the expanded path.
  It fails where the expansion itself raises and there is no expanded path: the
  \<open>RuntimeError\<close> of \<^verbatim>\<open>Path.expanduser\<close> when no home directory is known, and the
  \<open>ValueError\<close> of the password database on a user name with a null character.
\<close>

theorem valid_path_expansion_raises_counterexample:
  "valid_path env_nohome fs_sample (ord_str ''~/notes.txt'') (Some FILE) =
     Inl (RuntimeError (ord_str ''Could not determine home directory.'')) \<and>
   expanduser env_nohome (Path_of (ord_str ''~/notes.txt'')) =
     Inl (RuntimeError (ord_str ''Could not determine home directory.'')) \<and>
   valid_path env_alice fs_sample [TILDE, 97, 0, 98] None = Inl ValueError \<and>
   expanduser env_alice (Path_of [TILDE, 97, 0, 98]) = Inl ValueError"
proof -
  have 1: "expanduser env_nohome (Path_of (ord_str ''~/notes.txt'')) =
     Inl (RuntimeError (ord_str ''Could not determine home directory.''))"
    by (simp add: path_eval env_nohome_def)
  have 2: "expanduser env_alice (Path_of [TILDE, 97, 0, 98]) = Inl ValueError"
    by (simp add: path_eval env_alice_def)
  from 1 2 show ?thesis by (simp add: valid_path_eq)
qed

text \<open>
  C10, amended: whenever \<open>valid_path\<close> raises, either the expansion succeeded and the
  exception carries the expanded path, not the path as the caller wrote it (the error of
  the kind with the path, or the \<open>OSError\<close> of \<^verbatim>\<open>os.stat\<close> with the path as a string),
  or the expansion itself raised and the exception is its \<open>RuntimeError\<close> or the
  \<open>ValueError\<close> of the password database, which carry no path.
\<close>

theorem valid_path_error_carries_expansion:
  "valid_path env fs s filetype_arg = Inl e \<Longrightarrow>
   (\<exists>p. expanduser env (Path_of s) = Inr p \<and> expand_home env (Path_of s) = Some p \<and>
        (e = kind_error (kind_of_arg filetype_arg) p \<or> (\<exists>errno. e = OSError errno (path_str p)))) \<or>
   (expanduser env (Path_of s) = Inl e \<and>
    (e = RuntimeError (ord_str ''Could not determine home directory.'') \<or> e = ValueError))"
proof (cases "expanduser env (Path_of s)")
  case (Inl e')
  assume "valid_path env fs s filetype_arg = Inl e"
  with Inl have "e' = e" by (simp add: valid_path_eq)
  with Inl expanduser_Inl[of env s e] show ?thesis by simp
next
  case (Inr p)
  assume a: "valid_path env fs s filetype_arg = Inl e"
  from Inr have h: "expand_home env (Path_of s) = Some p" by (rule expanduser_Inr)
  from a Inr have "e = kind_error (kind_of_arg filetype_arg) p \<or> (\<exists>errno. e = OSError errno (path_str p))"
    by (auto simp: valid_path_eq split: if_splits stat_result.splits)
  with Inr h show ?thesis by simp
qed

theorem valid_path_error_carries_expansion_witness:
  "valid_path env_alice fs_sample (ord_str ''~/missing'') None
     = Inl (NoSuchFileOrDirectoryError (Path_of (ord_str ''/home/alice/missing''))) \<and>
   expanduser env_alice (Path_of (ord_str ''~/missing'')) = Inr (Path_of (ord_str ''/home/alice/missing'')) \<and>
   Path_of (ord_str ''/home/alice/missing'') \<noteq> Path_of (ord_str ''~/missing'')"
proof -
  have h: "valid_path env_alice fs_sample (ord_str ''~/missing'') None
     = Inl (NoSuchFileOrDirectoryError (Path_of (ord_str ''/home/alice/missing'')))"
    by (simp add: valid_path_eq path_eval env_alice_def fs_eval)
  have n: "Path_of (ord_str ''/home/alice/missing'') \<noteq> Path_of (ord_str ''~/missing'')"
    by (simp add: path_eval)
  from valid_path_error_carries_expansion [OF h]
  have "expanduser env_alice (Path_of (ord_str ''~/missing'')) = Inr (Path_of (ord_str ''/home/alice/missing''))"
    by (auto simp: kind_error_def kind_of_arg_def)
  with h n show ?thesis by blast
qed

end
